theory Spec2Isabelle
  imports Complex_Main "HOL-Library.Multiset"
begin

section \<open>JavaScript values of a request body\<close>

text \<open>
  A string is the list of its Unicode code points. \<^verbatim>\<open>String.prototype.trim\<close>
  removes the ECMAScript WhiteSpace and LineTerminator code points from both ends; all of
  them lie in the Basic Multilingual Plane, so trimming code points and trimming UTF-16
  code units agree on well-formed strings.
\<close>

type_synonym jsstring = "nat list"

definition is_whitespace :: "nat \<Rightarrow> bool" where
  "is_whitespace c \<longleftrightarrow>
     c = 0x0009 \<or> c = 0x000A \<or> c = 0x000B \<or> c = 0x000C \<or> c = 0x000D \<or>
     c = 0x0020 \<or> c = 0x00A0 \<or> c = 0x1680 \<or> (0x2000 \<le> c \<and> c \<le> 0x200A) \<or>
     c = 0x2028 \<or> c = 0x2029 \<or> c = 0x202F \<or> c = 0x205F \<or> c = 0x3000 \<or>
     c = 0xFEFF"

definition trimStart :: "jsstring \<Rightarrow> jsstring" where
  "trimStart s = dropWhile is_whitespace s"

definition trimEnd :: "jsstring \<Rightarrow> jsstring" where
  "trimEnd s = rev (dropWhile is_whitespace (rev s))"

definition trim :: "jsstring \<Rightarrow> jsstring" where
  "trim s = trimEnd (trimStart s)"

text \<open>
  \<^verbatim>\<open>express.json()\<close> parses the body; \<^verbatim>\<open>const { title, completed } = req.body\<close>
  reads two properties, each of which is \<^verbatim>\<open>undefined\<close> when absent and any JSON
  value otherwise. Arrays and objects are one constructor: the handlers only test their
  truthiness and call \<^verbatim>\<open>.trim()\<close> on them, which no JSON array or object has
  as a function.
\<close>

datatype jsval =
    Undefined
  | Null
  | Boolean bool
  | Number rat
  | String jsstring
  | Object

text \<open>JavaScript's ToBoolean, as used by \<^verbatim>\<open>!title\<close> and \<^verbatim>\<open>completed ? 1 : 0\<close>.\<close>

fun truthy :: "jsval \<Rightarrow> bool" where
  "truthy Undefined = False"
| "truthy Null = False"
| "truthy (Boolean b) = b"
| "truthy (Number n) = (n \<noteq> 0)"
| "truthy (String s) = (s \<noteq> [])"
| "truthy Object = True"

text \<open>
  The method call \<^verbatim>\<open>title.trim()\<close>: on a string it trims, on every other value
  it throws a TypeError (\<open>None\<close>), which the handler's \<^verbatim>\<open>catch\<close> turns into a 500.
\<close>

fun call_trim :: "jsval \<Rightarrow> jsstring option" where
  "call_trim (String s) = Some (trim s)"
| "call_trim _ = None"

section \<open>The table \<^verbatim>\<open>todos\<close>\<close>

text \<open>
  \<^verbatim>\<open>
  CREATE TABLE IF NOT EXISTS todos (
    id INT AUTO_INCREMENT PRIMARY KEY,
    title VARCHAR(500) NOT NULL,
    completed BOOLEAN DEFAULT FALSE,
    created_at TIMESTAMP DEFAULT CURRENT_TIMESTAMP
  )
  \<close>
  A row is a record; the same record is the JSON object of an item in a response and in
  the client's mirror. Timestamps are natural numbers (a clock reading). The identifier
  is an unbounded integer: the range of the INT column is not modelled. The table is the
  list of its rows in insertion order together with the AUTO\_INCREMENT counter.
\<close>

record todo =
  todo_id :: int
  title :: jsstring
  completed :: bool
  created_at :: nat

record db =
  rows :: "todo list"
  auto_increment :: int

definition initializeDatabase :: db where
  "initializeDatabase = \<lparr>rows = [], auto_increment = 1\<rparr>"

datatype sql_error = ER_DATA_TOO_LONG

definition varchar_limit :: nat where
  "varchar_limit = 500"

text \<open>
  \<^verbatim>\<open>SELECT id, title, completed, created_at FROM todos WHERE id = ?\<close>.
  The route parameter \<^verbatim>\<open>:id\<close> is an integer; a request whose parameter is not the
  decimal form of an integer is outside the model.
\<close>

definition select_by_id :: "db \<Rightarrow> int \<Rightarrow> todo list" where
  "select_by_id d i = filter (\<lambda>r. todo_id r = i) (rows d)"

text \<open>
  \<^verbatim>\<open>INSERT INTO todos (title, completed) VALUES (?, FALSE)\<close>, at database time
  \<open>now\<close>. The column stores any string of at most 500 characters. In MariaDB's default
  (strict) SQL mode a longer value is an error and nothing is inserted. The result
  carries \<^verbatim>\<open>insertId\<close>.
\<close>

definition insert_todo :: "db \<Rightarrow> nat \<Rightarrow> jsstring \<Rightarrow> sql_error + (int \<times> db)" where
  "insert_todo d now t =
     (if length t > varchar_limit then Inl ER_DATA_TOO_LONG
      else Inr (auto_increment d,
        \<lparr>rows = rows d @
           [\<lparr>todo_id = auto_increment d, title = t, completed = False, created_at = now\<rparr>],
         auto_increment = auto_increment d + 1\<rparr>))"

text \<open>
  The SET clause of the UPDATE is assembled from the supplied fields: the source pushes
  \<^verbatim>\<open>'title = ?'\<close> or \<^verbatim>\<open>'completed = ?'\<close> onto \<^verbatim>\<open>updates\<close> and the
  value onto \<^verbatim>\<open>values\<close>. An assignment pairs the two.
\<close>

datatype assignment = SetTitle jsstring | SetCompleted bool

fun assign :: "assignment \<Rightarrow> todo \<Rightarrow> todo" where
  "assign (SetTitle t) r = r\<lparr>title := t\<rparr>"
| "assign (SetCompleted b) r = r\<lparr>completed := b\<rparr>"

fun too_long :: "assignment \<Rightarrow> bool" where
  "too_long (SetTitle t) = (length t > varchar_limit)"
| "too_long (SetCompleted b) = False"

text \<open>
  \<^verbatim>\<open>UPDATE todos SET ... WHERE id = ?\<close>. The column \<^verbatim>\<open>created_at\<close> has an
  explicit DEFAULT and no ON UPDATE clause, so an update leaves it alone.
\<close>

definition update_todo :: "db \<Rightarrow> assignment list \<Rightarrow> int \<Rightarrow> sql_error + db" where
  "update_todo d updates i =
     (if select_by_id d i \<noteq> [] \<and> (\<exists>a \<in> set updates. too_long a) then Inl ER_DATA_TOO_LONG
      else Inr (d\<lparr>rows := map (\<lambda>r. if todo_id r = i then fold assign updates r else r) (rows d)\<rparr>))"

text \<open>\<^verbatim>\<open>DELETE FROM todos WHERE id = ?\<close>; the result carries \<^verbatim>\<open>affectedRows\<close>.\<close>

definition delete_todo :: "db \<Rightarrow> int \<Rightarrow> nat \<times> db" where
  "delete_todo d i =
     (length (select_by_id d i), d\<lparr>rows := filter (\<lambda>r. todo_id r \<noteq> i) (rows d)\<rparr>)"

text \<open>
  \<^verbatim>\<open>SELECT id, title, completed, created_at FROM todos ORDER BY created_at DESC\<close>.
  The statement fixes the order of rows with different \<^verbatim>\<open>created_at\<close> and leaves
  the order of rows with equal \<^verbatim>\<open>created_at\<close> to the database. That choice is the
  parameter \<open>scan\<close>: the order in which the database reads the rows of the table (a
  rearrangement of them). The rows read are sorted by insertion, which keeps rows with
  equal keys in the order read; a list that is already sorted is returned as it is, so
  every order the statement allows is the result for some \<open>scan\<close>.
\<close>

fun insert_desc :: "todo \<Rightarrow> todo list \<Rightarrow> todo list" where
  "insert_desc x [] = [x]"
| "insert_desc x (y # ys) =
     (if created_at y \<le> created_at x then x # y # ys else y # insert_desc x ys)"

definition order_by_created_at_desc :: "todo list \<Rightarrow> todo list" where
  "order_by_created_at_desc rs = foldr insert_desc rs []"

definition select_all :: "(todo list \<Rightarrow> todo list) \<Rightarrow> db \<Rightarrow> todo list" where
  "select_all scan d = order_by_created_at_desc (scan (rows d))"

section \<open>The request handlers\<close>

text \<open>
  A handler takes the table and the parts of the request it reads, and returns the
  response with the table it leaves. The body of a request is a JSON object. Every
  handler runs in a \<^verbatim>\<open>try\<close> whose \<^verbatim>\<open>catch\<close> answers 500; the model has the
  exceptions that the request itself can cause (the TypeError of \<^verbatim>\<open>.trim()\<close> on a value
  that is not a string, and a statement the table rejects). A lost connection is not
  modelled.
\<close>

datatype body =
    Error string
  | Todo todo
  | Todos "todo list"
  | Message string
  | Health string string

record response =
  status :: nat
  body :: body

text \<open>\<^verbatim>\<open>res.status(n).json(b)\<close>; \<^verbatim>\<open>res.json(b)\<close> answers with status 200.\<close>

definition reply :: "nat \<Rightarrow> body \<Rightarrow> response" where
  "reply n b = \<lparr>status = n, body = b\<rparr>"

text \<open>\<^verbatim>\<open>app.get('/api/todos')\<close>\<close>

definition get_todos :: "(todo list \<Rightarrow> todo list) \<Rightarrow> db \<Rightarrow> response \<times> db" where
  "get_todos scan d = (reply 200 (Todos (select_all scan d)), d)"

text \<open>\<^verbatim>\<open>app.get('/api/todos/:id')\<close>\<close>

definition get_todo :: "db \<Rightarrow> int \<Rightarrow> response \<times> db" where
  "get_todo d i =
     (case select_by_id d i of
        [] \<Rightarrow> (reply 404 (Error ''Todo not found''), d)
      | r # _ \<Rightarrow> (reply 200 (Todo r), d))"

text \<open>
  \<^verbatim>\<open>app.post('/api/todos')\<close>. \<open>current_timestamp\<close> is the database clock at the
  INSERT, \<open>new_Date\<close> the server's clock when the response object is built.
\<close>

definition post_todos :: "nat \<Rightarrow> nat \<Rightarrow> db \<Rightarrow> jsval \<Rightarrow> response \<times> db" where
  "post_todos current_timestamp new_Date d title_field =
     (if \<not> truthy title_field then (reply 400 (Error ''Title is required''), d)
      else case call_trim title_field of
        None \<Rightarrow> (reply 500 (Error ''Failed to create todo''), d)
      | Some t \<Rightarrow>
          if t = [] then (reply 400 (Error ''Title is required''), d)
          else (case insert_todo d current_timestamp t of
            Inl e \<Rightarrow> (reply 500 (Error ''Failed to create todo''), d)
          | Inr (insertId, d') \<Rightarrow>
              (reply 201 (Todo \<lparr>todo_id = insertId, title = t, completed = False,
                 created_at = new_Date\<rparr>), d')))"

text \<open>
  \<^verbatim>\<open>app.put('/api/todos/:id')\<close>. The three steps of the source in its order: the
  existence check, the title (validated, then pushed), the flag; then the UPDATE and the
  SELECT that reads the row back.
\<close>

definition title_updates :: "jsval \<Rightarrow> (response + assignment list) option" where
  "title_updates title_field =
     (if title_field \<noteq> Undefined then
        (case call_trim title_field of
           None \<Rightarrow> None
         | Some t \<Rightarrow>
             if t = [] then Some (Inl (reply 400 (Error ''Title cannot be empty'')))
             else Some (Inr [SetTitle t]))
      else Some (Inr []))"

definition completed_updates :: "jsval \<Rightarrow> assignment list" where
  "completed_updates completed_field =
     (if completed_field \<noteq> Undefined then [SetCompleted (truthy completed_field)] else [])"

definition put_todo :: "db \<Rightarrow> int \<Rightarrow> jsval \<Rightarrow> jsval \<Rightarrow> response \<times> db" where
  "put_todo d i title_field completed_field =
     (if select_by_id d i = [] then (reply 404 (Error ''Todo not found''), d)
      else case title_updates title_field of
        None \<Rightarrow> (reply 500 (Error ''Failed to update todo''), d)
      | Some (Inl r) \<Rightarrow> (r, d)
      | Some (Inr us) \<Rightarrow>
          (let updates = us @ completed_updates completed_field in
           if updates = [] then (reply 400 (Error ''No fields to update''), d)
           else (case update_todo d updates i of
             Inl e \<Rightarrow> (reply 500 (Error ''Failed to update todo''), d)
           | Inr d' \<Rightarrow>
               (case select_by_id d' i of
                  [] \<Rightarrow> (reply 500 (Error ''Failed to update todo''), d')
                | r # _ \<Rightarrow> (reply 200 (Todo r), d')))))"

text \<open>\<^verbatim>\<open>app.delete('/api/todos/:id')\<close>\<close>

definition delete_todo_handler :: "db \<Rightarrow> int \<Rightarrow> response \<times> db" where
  "delete_todo_handler d i =
     (case delete_todo d i of
        (affectedRows, d') \<Rightarrow>
          if affectedRows = 0 then (reply 404 (Error ''Todo not found''), d')
          else (reply 200 (Message ''Todo deleted successfully''), d'))"

text \<open>\<^verbatim>\<open>app.get('/api/health')\<close>\<close>

definition get_health :: "db \<Rightarrow> response \<times> db" where
  "get_health d = (reply 200 (Health ''healthy'' ''connected''), d)"

text \<open>
  The routes of the application, and a sequence of requests served one by one. A request
  carries what the handler takes from its environment: the read order of the SELECT,
  the two clocks of a POST.
\<close>

datatype request =
    GET_todos "todo list \<Rightarrow> todo list"
  | GET_todo int
  | POST_todos nat nat jsval
  | PUT_todo int jsval jsval
  | DELETE_todo int
  | GET_health

fun app :: "db \<Rightarrow> request \<Rightarrow> response \<times> db" where
  "app d (GET_todos scan) = get_todos scan d"
| "app d (GET_todo i) = get_todo d i"
| "app d (POST_todos current_timestamp new_Date t) = post_todos current_timestamp new_Date d t"
| "app d (PUT_todo i t c) = put_todo d i t c"
| "app d (DELETE_todo i) = delete_todo_handler d i"
| "app d GET_health = get_health d"

fun serve :: "db \<Rightarrow> request list \<Rightarrow> db" where
  "serve d [] = d"
| "serve d (q # qs) = serve (snd (app d q)) qs"

section \<open>The client's filter\<close>

text \<open>
  \<^verbatim>\<open>getFilteredTodos\<close> reads the globals \<^verbatim>\<open>currentFilter\<close> and \<^verbatim>\<open>todos\<close>;
  here they are arguments. The items of the mirror are the objects the API returned.
\<close>

definition getFilteredTodos :: "string \<Rightarrow> todo list \<Rightarrow> todo list" where
  "getFilteredTodos currentFilter todos =
     (if currentFilter = ''active'' then filter (\<lambda>t. \<not> completed t) todos
      else if currentFilter = ''completed'' then filter (\<lambda>t. completed t) todos
      else todos)"

section \<open>Properties of the table\<close>

text \<open>
  The primary key with AUTO\_INCREMENT: identifiers are distinct and lie below the
  counter.
\<close>

definition primary_key :: "db \<Rightarrow> bool" where
  "primary_key d \<longleftrightarrow>
     distinct (map todo_id (rows d)) \<and> (\<forall>r \<in> set (rows d). todo_id r < auto_increment d)"

text \<open>A label is non-empty after trimming and at most 500 characters long.\<close>

definition label_ok :: "jsstring \<Rightarrow> bool" where
  "label_ok t \<longleftrightarrow> trim t \<noteq> [] \<and> length t \<le> 500"

definition labels_ok :: "db \<Rightarrow> bool" where
  "labels_ok d \<longleftrightarrow> (\<forall>r \<in> set (rows d). label_ok (title r))"

section \<open>Example states\<close>

text \<open>A table with three rows; the row with identifier 3 has been deleted.\<close>

definition example_db :: db where
  "example_db = \<lparr>rows =
     [\<lparr>todo_id = 1, title = [66, 117, 121], completed = False, created_at = 10\<rparr>,
      \<lparr>todo_id = 2, title = [109, 105, 108, 107], completed = True, created_at = 20\<rparr>,
      \<lparr>todo_id = 4, title = [116, 101, 97], completed = False, created_at = 20\<rparr>],
    auto_increment = 5\<rparr>"

text \<open>A label of 501 letters \<^verbatim>\<open>a\<close>, and the label \<^verbatim>\<open>"  Buy milk "\<close>.\<close>

definition long_label :: jsstring where
  "long_label = replicate 501 97"

definition buy_milk :: jsstring where
  "buy_milk = [32, 32, 66, 117, 121, 32, 109, 105, 108, 107, 32]"

text \<open>The table after two creates at the same reading of the database clock.\<close>

definition two_in_a_second :: db where
  "two_in_a_second = \<lparr>rows =
     [\<lparr>todo_id = 1, title = [97], completed = False, created_at = 30\<rparr>,
      \<lparr>todo_id = 2, title = [98], completed = False, created_at = 30\<rparr>],
    auto_increment = 3\<rparr>"

section \<open>Basic facts\<close>

lemma status_reply: "status (reply n b) = n"
  by (simp add: reply_def)

lemma body_reply: "body (reply n b) = b"
  by (simp add: reply_def)

lemma select_by_id_Nil: "select_by_id d i = [] \<longleftrightarrow> (\<forall>r \<in> set (rows d). todo_id r \<noteq> i)"
  by (auto simp: select_by_id_def filter_empty_conv)

lemma filter_by_id_distinct:
  "distinct (map todo_id xs) \<Longrightarrow> r \<in> set xs \<Longrightarrow>
     filter (\<lambda>x. todo_id x = todo_id r) xs = [r]"
proof (induction xs)
  case Nil
  then show ?case by simp
next
  case (Cons x xs)
  from Cons.prems have fresh: "\<forall>y \<in> set xs. todo_id y \<noteq> todo_id x"
    by (metis distinct.simps(2) imageI list.simps(9) list.set_map)
  show ?case
  proof (cases "x = r")
    case True
    with fresh have "filter (\<lambda>x. todo_id x = todo_id r) xs = []" by (simp add: filter_empty_conv)
    with True show ?thesis by simp
  next
    case False
    with Cons.prems have in_xs: "r \<in> set xs" by simp
    with fresh have "todo_id x \<noteq> todo_id r" by metis
    moreover from Cons.prems have "distinct (map todo_id xs)" by simp
    ultimately show ?thesis using Cons.IH in_xs by simp
  qed
qed

lemma select_by_id_distinct:
  "distinct (map todo_id (rows d)) \<Longrightarrow> r \<in> set (rows d) \<Longrightarrow> select_by_id d (todo_id r) = [r]"
  by (simp add: select_by_id_def filter_by_id_distinct)

subsection \<open>Trimming\<close>

lemma trimEnd_idem: "trimEnd (trimEnd s) = trimEnd s"
  by (simp add: trimEnd_def)

lemma trimStart_trim: "trimStart (trim s) = trim s"
  unfolding trim_def
  by (metis dropWhile_eq_self_iff dropWhile_idem hd_rev last_appendR
    last_rev rev.simps(1) takeWhile_dropWhile_id trimEnd_def
    trimStart_def)

lemma trim_idem: "trim (trim s) = trim s"
proof -
  have "trim (trim s) = trimEnd (trimStart (trim s))" by (simp add: trim_def)
  also have "\<dots> = trimEnd (trim s)" by (simp add: trimStart_trim)
  also have "\<dots> = trim s" by (simp add: trim_def trimEnd_idem)
  finally show ?thesis .
qed

lemma trim_Nil: "trim [] = []"
  by (simp add: trim_def trimEnd_def trimStart_def)

lemma trim_replicate:
  "trim (replicate n c) = (if is_whitespace c then [] else replicate n c)"
  by (simp add: trim_def trimEnd_def trimStart_def dropWhile_replicate)

lemma trim_long_label: "trim long_label = long_label"
  by (simp add: long_label_def trim_replicate is_whitespace_def)

lemma length_long_label: "length long_label = 501"
  by (simp add: long_label_def)

lemma long_label_not_Nil: "long_label \<noteq> []"
  by (simp add: long_label_def)

lemma trim_buy_milk: "trim buy_milk = [66, 117, 121, 32, 109, 105, 108, 107]"
  by (simp add: buy_milk_def trim_def trimEnd_def trimStart_def is_whitespace_def)

subsection \<open>Sorting by creation time\<close>

lemma mset_insert_desc: "mset (insert_desc x ys) = add_mset x (mset ys)"
  by (induction ys) simp_all

lemma set_insert_desc: "set (insert_desc x ys) = insert x (set ys)"
  by (induction ys) auto

lemma sorted_insert_desc:
  "sorted_wrt (\<lambda>a b. created_at b \<le> created_at a) ys \<Longrightarrow>
   sorted_wrt (\<lambda>a b. created_at b \<le> created_at a) (insert_desc x ys)"
proof (induction ys)
  case Nil
  then show ?case by simp
next
  case (Cons y ys)
  show ?case
  proof (cases "created_at y \<le> created_at x")
    case True
    with Cons.prems show ?thesis by auto
  next
    case False
    with Cons show ?thesis by (auto simp: set_insert_desc)
  qed
qed

lemma mset_order_by: "mset (order_by_created_at_desc rs) = mset rs"
  by (induction rs) (simp_all add: order_by_created_at_desc_def mset_insert_desc)

lemma order_by_sorted:
  "sorted_wrt (\<lambda>a b. created_at b \<le> created_at a) ts \<Longrightarrow> order_by_created_at_desc ts = ts"
proof (induction ts)
  case Nil
  show ?case by (simp add: order_by_created_at_desc_def)
next
  case (Cons x xs)
  then have "order_by_created_at_desc (x # xs) = insert_desc x xs"
    by (simp add: order_by_created_at_desc_def)
  also from Cons.prems have "\<dots> = x # xs"
    by (cases xs) simp_all
  finally show ?case .
qed

lemma sorted_order_by:
  "sorted_wrt (\<lambda>a b. created_at b \<le> created_at a) (order_by_created_at_desc rs)"
  by (induction rs) (simp_all add: order_by_created_at_desc_def sorted_insert_desc)

subsection \<open>Creating\<close>

lemma post_todos_String:
  "post_todos ct nd d (String s) =
     (if trim s = [] then (reply 400 (Error ''Title is required''), d)
      else if length (trim s) > 500 then (reply 500 (Error ''Failed to create todo''), d)
      else (reply 201 (Todo \<lparr>todo_id = auto_increment d, title = trim s, completed = False,
                created_at = nd\<rparr>),
            \<lparr>rows = rows d @
               [\<lparr>todo_id = auto_increment d, title = trim s, completed = False, created_at = ct\<rparr>],
             auto_increment = auto_increment d + 1\<rparr>))"
  by (cases "s = []") (simp_all add: post_todos_def insert_todo_def varchar_limit_def trim_Nil)

lemma post_todos_rows:
  "rows (snd (post_todos ct nd d v)) = rows d \<or>
   (\<exists>s. v = String s \<and> trim s \<noteq> [] \<and> length (trim s) \<le> 500 \<and>
     snd (post_todos ct nd d v) =
       \<lparr>rows = rows d @
          [\<lparr>todo_id = auto_increment d, title = trim s, completed = False, created_at = ct\<rparr>],
        auto_increment = auto_increment d + 1\<rparr>)"
proof (cases v)
  case (String s)
  then show ?thesis by (simp add: post_todos_String)
qed (simp_all add: post_todos_def)

lemma primary_key_insert:
  assumes "primary_key d"
  shows "primary_key \<lparr>rows = rows d @ [\<lparr>todo_id = auto_increment d, title = t, completed = b,
           created_at = ct\<rparr>], auto_increment = auto_increment d + 1\<rparr>"
  using assms by (fastforce simp: primary_key_def)

subsection \<open>Updating\<close>

lemma title_updates_cases:
  "title_updates t =
     (case t of
        Undefined \<Rightarrow> Some (Inr [])
      | String s \<Rightarrow>
          if trim s = [] then Some (Inl (reply 400 (Error ''Title cannot be empty'')))
          else Some (Inr [SetTitle (trim s)])
      | _ \<Rightarrow> None)"
  by (cases t) (simp_all add: title_updates_def)

lemma todo_id_fold_assign: "todo_id (fold assign us r) = todo_id r"
proof (induction us arbitrary: r)
  case Nil
  show ?case by simp
next
  case (Cons a us)
  then show ?case by (cases a) simp_all
qed

lemma select_by_id_update:
  "filter (\<lambda>r. todo_id r = i) (map (\<lambda>r. if todo_id r = i then fold assign us r else r) xs) =
   map (fold assign us) (filter (\<lambda>r. todo_id r = i) xs)"
  by (induction xs) (simp_all add: todo_id_fold_assign)

text \<open>What a PUT that gets past the existence check does, by the fields supplied.\<close>

lemma put_todo_found:
  assumes "select_by_id d i \<noteq> []"
  shows "put_todo d i t c =
    (case title_updates t of
       None \<Rightarrow> (reply 500 (Error ''Failed to update todo''), d)
     | Some (Inl r) \<Rightarrow> (r, d)
     | Some (Inr us) \<Rightarrow>
         if us @ completed_updates c = [] then (reply 400 (Error ''No fields to update''), d)
         else if \<exists>a \<in> set us. too_long a then (reply 500 (Error ''Failed to update todo''), d)
         else (reply 200 (Todo (fold assign (us @ completed_updates c) (hd (select_by_id d i)))),
               d\<lparr>rows := map (\<lambda>r. if todo_id r = i then fold assign (us @ completed_updates c) r
                                else r) (rows d)\<rparr>))"
proof -
  have tl: "Bex (set us \<union> set (completed_updates c)) too_long \<longleftrightarrow> (\<exists>a \<in> set us. too_long a)" for us
    by (auto simp: completed_updates_def)
  obtain r rs where sel: "select_by_id d i = r # rs"
    using assms by (cases "select_by_id d i") auto
  have sel': "select_by_id (d\<lparr>rows := map (\<lambda>r. if todo_id r = i then fold assign us r else r) (rows d)\<rparr>) i
      = fold assign us r # map (fold assign us) rs" for us
    using sel by (simp add: select_by_id_def select_by_id_update)
  show ?thesis
    using assms
    by (simp add: put_todo_def update_todo_def Let_def tl sel sel' del: fold_append
          split: option.splits sum.splits)
qed


lemma put_todo_not_text:
  assumes "select_by_id d i \<noteq> []" and "t \<noteq> Undefined" and "\<forall>s. t \<noteq> String s"
  shows "put_todo d i t c = (reply 500 (Error ''Failed to update todo''), d)"
  using assms by (cases t) (simp_all add: put_todo_found title_updates_cases)

lemma put_todo_absent:
  "select_by_id d i = [] \<Longrightarrow> put_todo d i t c = (reply 404 (Error ''Todo not found''), d)"
  by (simp add: put_todo_def)

lemma put_todo_200:
  assumes "status (fst (put_todo d i t c)) = 200"
  shows "select_by_id d i \<noteq> [] \<and>
     (t = Undefined \<or> (\<exists>s. t = String s \<and> trim s \<noteq> [] \<and> length (trim s) \<le> 500)) \<and>
     (t \<noteq> Undefined \<or> c \<noteq> Undefined) \<and>
     put_todo d i t c =
       (reply 200 (Todo ((hd (select_by_id d i))
           \<lparr>title := (case t of String s \<Rightarrow> trim s | _ \<Rightarrow> title (hd (select_by_id d i))),
            completed := (if c = Undefined then completed (hd (select_by_id d i)) else truthy c)\<rparr>)),
        d\<lparr>rows := map (\<lambda>r. if todo_id r = i
               then r\<lparr>title := (case t of String s \<Rightarrow> trim s | _ \<Rightarrow> title r),
                      completed := (if c = Undefined then completed r else truthy c)\<rparr>
               else r) (rows d)\<rparr>)"
proof -
  have found: "select_by_id d i \<noteq> []"
  proof
    assume "select_by_id d i = []"
    then have "status (fst (put_todo d i t c)) = 404"
      by (simp add: put_todo_absent status_reply)
    with assms show False by simp
  qed
  show ?thesis
  proof (cases t)
    case Undefined
    with assms found show ?thesis
      by (auto simp: put_todo_found title_updates_cases completed_updates_def status_reply
            split: if_splits)
  next
    case (String s)
    with assms found show ?thesis
      by (auto simp: put_todo_found title_updates_cases completed_updates_def status_reply
            varchar_limit_def split: if_splits)
  qed (use assms found in \<open>simp_all add: put_todo_found title_updates_cases status_reply\<close>)
qed


lemma put_todo_succeeds:
  assumes pk: "distinct (map todo_id (rows d))" and r: "r \<in> set (rows d)"
    and t: "t = Undefined \<or> (\<exists>s. t = String s \<and> trim s \<noteq> [] \<and> length (trim s) \<le> 500)"
    and some: "t \<noteq> Undefined \<or> c \<noteq> Undefined"
  shows "fst (put_todo d (todo_id r) t c) =
       reply 200 (Todo (r\<lparr>title := (case t of String s \<Rightarrow> trim s | _ \<Rightarrow> title r),
                          completed := (if c = Undefined then completed r else truthy c)\<rparr>)) \<and>
     r\<lparr>title := (case t of String s \<Rightarrow> trim s | _ \<Rightarrow> title r),
       completed := (if c = Undefined then completed r else truthy c)\<rparr>
       \<in> set (rows (snd (put_todo d (todo_id r) t c)))"
proof -
  have sel: "select_by_id d (todo_id r) = [r]"
    using pk r by (rule select_by_id_distinct)
  then have found: "select_by_id d (todo_id r) \<noteq> []" by simp
  from t show ?thesis
  proof
    assume "t = Undefined"
    with some r show ?thesis
      by (force simp: put_todo_found [OF found] sel title_updates_cases completed_updates_def)
  next
    assume "\<exists>s. t = String s \<and> trim s \<noteq> [] \<and> length (trim s) \<le> 500"
    then obtain s where "t = String s" "trim s \<noteq> []" "length (trim s) \<le> 500" by blast
    with r show ?thesis
      by (force simp: put_todo_found [OF found] sel title_updates_cases completed_updates_def
            varchar_limit_def)
  qed
qed

subsection \<open>Invariants of the table\<close>

lemma label_ok_trim: "trim s \<noteq> [] \<Longrightarrow> length (trim s) \<le> 500 \<Longrightarrow> label_ok (trim s)"
  by (simp add: label_ok_def trim_idem)

lemma post_todos_labels_ok:
  assumes "labels_ok d"
  shows "labels_ok (snd (post_todos ct nd d v))"
  using post_todos_rows [of ct nd d v]
proof
  assume "rows (snd (post_todos ct nd d v)) = rows d"
  with assms show ?thesis by (simp add: labels_ok_def)
next
  assume "\<exists>s. v = String s \<and> trim s \<noteq> [] \<and> length (trim s) \<le> 500 \<and>
     snd (post_todos ct nd d v) =
       \<lparr>rows = rows d @
          [\<lparr>todo_id = auto_increment d, title = trim s, completed = False, created_at = ct\<rparr>],
        auto_increment = auto_increment d + 1\<rparr>"
  with assms show ?thesis by (auto simp: labels_ok_def label_ok_trim)
qed

lemma put_todo_unchanged_or_200:
  "snd (put_todo d i t c) = d \<or> status (fst (put_todo d i t c)) = 200"
proof (cases "select_by_id d i = []")
  case True
  then show ?thesis by (simp add: put_todo_absent)
next
  case False
  then show ?thesis
    by (cases t)
       (simp_all add: put_todo_found title_updates_cases status_reply)
qed

lemma put_todo_labels_ok:
  assumes "labels_ok d"
  shows "labels_ok (snd (put_todo d i t c))"
  using put_todo_unchanged_or_200 [of d i t c]
proof
  assume "snd (put_todo d i t c) = d"
  with assms show ?thesis by simp
next
  assume "status (fst (put_todo d i t c)) = 200"
  note ok = put_todo_200 [OF this]
  then have t: "t = Undefined \<or> (\<exists>s. t = String s \<and> trim s \<noteq> [] \<and> length (trim s) \<le> 500)"
    by blast
  from ok have eq: "snd (put_todo d i t c) =
        d\<lparr>rows := map (\<lambda>r. if todo_id r = i
               then r\<lparr>title := (case t of String s \<Rightarrow> trim s | _ \<Rightarrow> title r),
                      completed := (if c = Undefined then completed r else truthy c)\<rparr>
               else r) (rows d)\<rparr>"
    by simp
  from t assms show ?thesis
    unfolding eq by (auto simp: labels_ok_def label_ok_trim)
qed

lemma delete_todo_handler_rows:
  "rows (snd (delete_todo_handler d i)) = filter (\<lambda>r. todo_id r \<noteq> i) (rows d) \<and>
   auto_increment (snd (delete_todo_handler d i)) = auto_increment d"
  by (simp add: delete_todo_handler_def delete_todo_def)

lemma app_labels_ok:
  assumes "labels_ok d"
  shows "labels_ok (snd (app d q))"
proof (cases q)
  case (POST_todos ct nd v)
  with assms show ?thesis by (simp add: post_todos_labels_ok)
next
  case (PUT_todo i t c)
  with assms show ?thesis by (simp add: put_todo_labels_ok)
next
  case (DELETE_todo i)
  with assms show ?thesis by (simp add: labels_ok_def delete_todo_handler_rows)
next
  case (GET_todo i)
  with assms show ?thesis by (simp add: get_todo_def split: list.splits)
qed (use assms in \<open>simp_all add: get_todos_def get_health_def\<close>)

lemma serve_labels_ok: "labels_ok d \<Longrightarrow> labels_ok (serve d qs)"
  by (induction qs arbitrary: d) (simp_all add: app_labels_ok)

lemma labels_ok_initial: "labels_ok initializeDatabase"
  by (simp add: labels_ok_def initializeDatabase_def)

text \<open>
  The primary key holds of the empty table and is kept by every request, so it holds of
  every table that a sequence of requests reaches.
\<close>

lemma primary_key_initial: "primary_key initializeDatabase"
  by (simp add: primary_key_def initializeDatabase_def)

lemma post_todos_primary_key:
  assumes "primary_key d"
  shows "primary_key (snd (post_todos ct nd d v))"
  using post_todos_rows [of ct nd d v]
proof
  assume "\<exists>s. v = String s \<and> trim s \<noteq> [] \<and> length (trim s) \<le> 500 \<and>
     snd (post_todos ct nd d v) =
       \<lparr>rows = rows d @
          [\<lparr>todo_id = auto_increment d, title = trim s, completed = False, created_at = ct\<rparr>],
        auto_increment = auto_increment d + 1\<rparr>"
  then obtain s where "snd (post_todos ct nd d v) =
       \<lparr>rows = rows d @
          [\<lparr>todo_id = auto_increment d, title = trim s, completed = False, created_at = ct\<rparr>],
        auto_increment = auto_increment d + 1\<rparr>"
    by blast
  with primary_key_insert [OF assms] show ?thesis by simp
next
  assume same: "rows (snd (post_todos ct nd d v)) = rows d"
  have "auto_increment (snd (post_todos ct nd d v)) = auto_increment d"
  proof (cases v)
    case (String s)
    with same show ?thesis by (simp add: post_todos_String split: if_splits)
  qed (simp_all add: post_todos_def)
  with same assms show ?thesis by (simp add: primary_key_def)
qed

lemma primary_key_ids:
  "primary_key d \<longleftrightarrow>
     distinct (map todo_id (rows d)) \<and> (\<forall>k \<in> set (map todo_id (rows d)). k < auto_increment d)"
  by (simp add: primary_key_def)

lemma put_todo_200_ids:
  assumes "status (fst (put_todo d i t c)) = 200"
  shows "map todo_id (rows (snd (put_todo d i t c))) = map todo_id (rows d) \<and>
     auto_increment (snd (put_todo d i t c)) = auto_increment d"
proof -
  from put_todo_200 [OF assms] have eq: "snd (put_todo d i t c) =
        d\<lparr>rows := map (\<lambda>r. if todo_id r = i
               then r\<lparr>title := (case t of String s \<Rightarrow> trim s | _ \<Rightarrow> title r),
                      completed := (if c = Undefined then completed r else truthy c)\<rparr>
               else r) (rows d)\<rparr>"
    by simp
  show ?thesis
    unfolding eq by (simp add: comp_def if_distrib [of todo_id] cong: if_cong)
qed

lemma put_todo_primary_key:
  assumes "primary_key d"
  shows "primary_key (snd (put_todo d i t c))"
  using put_todo_unchanged_or_200 [of d i t c]
proof
  assume "snd (put_todo d i t c) = d"
  with assms show ?thesis by simp
next
  assume "status (fst (put_todo d i t c)) = 200"
  from put_todo_200_ids [OF this] assms show ?thesis
    unfolding primary_key_ids by metis
qed

lemma delete_todo_handler_primary_key:
  assumes "primary_key d"
  shows "primary_key (snd (delete_todo_handler d i))"
  using assms by (simp add: primary_key_def delete_todo_handler_rows distinct_map_filter)

lemma app_primary_key:
  assumes "primary_key d"
  shows "primary_key (snd (app d q))"
proof (cases q)
  case (POST_todos ct nd v)
  with assms show ?thesis by (simp add: post_todos_primary_key)
next
  case (PUT_todo i t c)
  with assms show ?thesis by (simp add: put_todo_primary_key)
next
  case (DELETE_todo i)
  with assms show ?thesis by (simp add: delete_todo_handler_primary_key)
next
  case (GET_todo i)
  with assms show ?thesis by (simp add: get_todo_def split: list.splits)
qed (use assms in \<open>simp_all add: get_todos_def get_health_def\<close>)

lemma serve_primary_key: "primary_key d \<Longrightarrow> primary_key (serve d qs)"
  by (induction qs arbitrary: d) (simp_all add: app_primary_key)

subsection \<open>Trimmed labels\<close>

lemma title_updates_trim: "title_updates (String (trim s)) = title_updates (String s)"
  by (simp add: title_updates_def trim_idem)

lemma put_todo_String_200:
  assumes "status (fst (put_todo d i (String s) c)) = 200"
  shows "put_todo d i (String s) c =
       (reply 200 (Todo ((hd (select_by_id d i))
           \<lparr>title := trim s,
            completed := (if c = Undefined then completed (hd (select_by_id d i)) else truthy c)\<rparr>)),
        d\<lparr>rows := map (\<lambda>r. if todo_id r = i
               then r\<lparr>title := trim s,
                      completed := (if c = Undefined then completed r else truthy c)\<rparr>
               else r) (rows d)\<rparr>)"
proof -
  from put_todo_200 [OF assms] have "put_todo d i (String s) c =
       (reply 200 (Todo ((hd (select_by_id d i))
           \<lparr>title := (case String s of String s \<Rightarrow> trim s | _ \<Rightarrow> title (hd (select_by_id d i))),
            completed := (if c = Undefined then completed (hd (select_by_id d i)) else truthy c)\<rparr>)),
        d\<lparr>rows := map (\<lambda>r. if todo_id r = i
               then r\<lparr>title := (case String s of String s \<Rightarrow> trim s | _ \<Rightarrow> title r),
                      completed := (if c = Undefined then completed r else truthy c)\<rparr>
               else r) (rows d)\<rparr>)"
    by (elim conjE)
  also have "\<dots> = (reply 200 (Todo ((hd (select_by_id d i))
           \<lparr>title := trim s,
            completed := (if c = Undefined then completed (hd (select_by_id d i)) else truthy c)\<rparr>)),
        d\<lparr>rows := map (\<lambda>r. if todo_id r = i
               then r\<lparr>title := trim s,
                      completed := (if c = Undefined then completed r else truthy c)\<rparr>
               else r) (rows d)\<rparr>)"
    by simp
  finally show ?thesis .
qed

lemma put_todo_String_stored:
  assumes "status (fst (put_todo d i (String s) c)) = 200"
  shows "\<forall>r \<in> set (rows (snd (put_todo d i (String s) c))). todo_id r = i \<longrightarrow> title r = trim s"
proof (intro ballI impI)
  let ?f = "\<lambda>x. if todo_id x = i
               then x\<lparr>title := trim s,
                      completed := (if c = Undefined then completed x else truthy c)\<rparr>
               else x"
  have rows': "rows (snd (put_todo d i (String s) c)) = map ?f (rows d)"
    unfolding put_todo_String_200 [OF assms] by simp
  fix r
  assume "r \<in> set (rows (snd (put_todo d i (String s) c)))" and i: "todo_id r = i"
  then have "r \<in> ?f ` set (rows d)"
    by (simp only: rows' set_map)
  then obtain x where r: "r = ?f x"
    by (rule imageE)
  with i show "title r = trim s"
    by (cases "todo_id x = i") simp_all
qed

section \<open>Reading one item\<close>

text \<open>
  C9. In a table whose identifiers are distinct (the primary key), get-by-id answers 404
  exactly when no row has the requested identifier, and otherwise answers 200 with
  exactly the stored row of that identifier; the table is not changed.
\<close>

theorem get_todo_by_id:
  assumes "distinct (map todo_id (rows d))"
  shows "(status (fst (get_todo d i)) = 404 \<longleftrightarrow> (\<forall>r \<in> set (rows d). todo_id r \<noteq> i)) \<and>
         ((\<forall>r \<in> set (rows d). todo_id r \<noteq> i) \<longrightarrow>
            get_todo d i = (reply 404 (Error ''Todo not found''), d)) \<and>
         (\<forall>r \<in> set (rows d). todo_id r = i \<longrightarrow> get_todo d i = (reply 200 (Todo r), d))"
proof (intro conjI)
  show "status (fst (get_todo d i)) = 404 \<longleftrightarrow> (\<forall>r \<in> set (rows d). todo_id r \<noteq> i)"
    by (cases "select_by_id d i")
       (simp_all add: get_todo_def status_reply flip: select_by_id_Nil)
  show "(\<forall>r \<in> set (rows d). todo_id r \<noteq> i) \<longrightarrow>
            get_todo d i = (reply 404 (Error ''Todo not found''), d)"
    by (simp add: get_todo_def flip: select_by_id_Nil)
  show "\<forall>r \<in> set (rows d). todo_id r = i \<longrightarrow> get_todo d i = (reply 200 (Todo r), d)"
    using select_by_id_distinct [OF assms] by (auto simp: get_todo_def)
qed

theorem get_todo_by_id_witness:
  "distinct (map todo_id (rows example_db)) \<and>
   status (fst (get_todo example_db 3)) = 404 \<and>
   get_todo example_db 2 =
     (reply 200 (Todo \<lparr>todo_id = 2, title = [109, 105, 108, 107], completed = True, created_at = 20\<rparr>),
      example_db)"
proof -
  have pk: "distinct (map todo_id (rows example_db))"
    by (simp add: example_db_def)
  have "\<forall>r \<in> set (rows example_db). todo_id r \<noteq> 3"
    by (simp add: example_db_def)
  with get_todo_by_id [OF pk, of 3] have absent: "status (fst (get_todo example_db 3)) = 404"
    by blast
  have "\<lparr>todo_id = 2, title = [109, 105, 108, 107], completed = True, created_at = 20\<rparr>
          \<in> set (rows example_db)"
    by (simp add: example_db_def)
  with get_todo_by_id [OF pk, of 2] have
    "get_todo example_db 2 =
       (reply 200 (Todo \<lparr>todo_id = 2, title = [109, 105, 108, 107], completed = True, created_at = 20\<rparr>),
        example_db)"
    by fastforce
  with pk absent show ?thesis by blast
qed


section \<open>Deleting an item\<close>

text \<open>
  C4. A delete of an identifier that no row has answers 404 and leaves the table as it
  was; a delete of an identifier that some row has answers 200 and removes the rows of
  that identifier, and nothing else.
\<close>

theorem delete_by_id:
  "((\<forall>r \<in> set (rows d). todo_id r \<noteq> i) \<longrightarrow>
      delete_todo_handler d i = (reply 404 (Error ''Todo not found''), d)) \<and>
   ((\<exists>r \<in> set (rows d). todo_id r = i) \<longrightarrow>
      fst (delete_todo_handler d i) = reply 200 (Message ''Todo deleted successfully'') \<and>
      rows (snd (delete_todo_handler d i)) = filter (\<lambda>r. todo_id r \<noteq> i) (rows d) \<and>
      auto_increment (snd (delete_todo_handler d i)) = auto_increment d \<and>
      (\<forall>r \<in> set (rows (snd (delete_todo_handler d i))). todo_id r \<noteq> i))"
proof (intro conjI impI)
  assume none: "\<forall>r \<in> set (rows d). todo_id r \<noteq> i"
  then have "filter (\<lambda>r. todo_id r \<noteq> i) (rows d) = rows d" by simp
  moreover from none have "select_by_id d i = []" by (simp add: select_by_id_Nil)
  ultimately show "delete_todo_handler d i = (reply 404 (Error ''Todo not found''), d)"
    by (simp add: delete_todo_handler_def delete_todo_def)
next
  assume "\<exists>r \<in> set (rows d). todo_id r = i"
  then have some: "select_by_id d i \<noteq> []" by (simp add: select_by_id_Nil)
  then show "fst (delete_todo_handler d i) = reply 200 (Message ''Todo deleted successfully'')"
    by (simp add: delete_todo_handler_def delete_todo_def)
  from some show "rows (snd (delete_todo_handler d i)) = filter (\<lambda>r. todo_id r \<noteq> i) (rows d)"
    by (simp add: delete_todo_handler_def delete_todo_def)
  from some show "auto_increment (snd (delete_todo_handler d i)) = auto_increment d"
    by (simp add: delete_todo_handler_def delete_todo_def)
  from some show "\<forall>r \<in> set (rows (snd (delete_todo_handler d i))). todo_id r \<noteq> i"
    by (simp add: delete_todo_handler_def delete_todo_def)
qed

theorem delete_by_id_witness:
  "delete_todo_handler example_db 3 = (reply 404 (Error ''Todo not found''), example_db) \<and>
   fst (delete_todo_handler example_db 2) = reply 200 (Message ''Todo deleted successfully'') \<and>
   rows (snd (delete_todo_handler example_db 2)) =
     [\<lparr>todo_id = 1, title = [66, 117, 121], completed = False, created_at = 10\<rparr>,
      \<lparr>todo_id = 4, title = [116, 101, 97], completed = False, created_at = 20\<rparr>]"
proof -
  have "\<forall>r \<in> set (rows example_db). todo_id r \<noteq> 3"
    by (simp add: example_db_def)
  with delete_by_id [of example_db 3]
  have absent: "delete_todo_handler example_db 3 = (reply 404 (Error ''Todo not found''), example_db)"
    by blast
  have "\<exists>r \<in> set (rows example_db). todo_id r = 2"
    by (simp add: example_db_def)
  with delete_by_id [of example_db 2]
  have present: "fst (delete_todo_handler example_db 2) = reply 200 (Message ''Todo deleted successfully'')"
    "rows (snd (delete_todo_handler example_db 2)) = filter (\<lambda>r. todo_id r \<noteq> 2) (rows example_db)"
    by blast+
  have "filter (\<lambda>r. todo_id r \<noteq> 2) (rows example_db) =
     [\<lparr>todo_id = 1, title = [66, 117, 121], completed = False, created_at = 10\<rparr>,
      \<lparr>todo_id = 4, title = [116, 101, 97], completed = False, created_at = 20\<rparr>]"
    by (simp add: example_db_def)
  with absent present show ?thesis by simp
qed

section \<open>Listing all items\<close>

text \<open>
  C5, amended to the creation timestamp. For every state of the table and every order in
  which the database reads it, list-all answers 200 with all the rows (each as often as
  it is stored), ordered by creation timestamp, newest first: of any two items of the
  list, the later one has a creation timestamp no greater than the earlier one's. The
  order of items with the same timestamp is not fixed.
\<close>

theorem get_todos_newest_first:
  assumes "mset (scan (rows d)) = mset (rows d)"
  shows "\<exists>ts. get_todos scan d = (reply 200 (Todos ts), d) \<and>
        mset ts = mset (rows d) \<and>
        (\<forall>m n. m < n \<and> n < length ts \<longrightarrow> created_at (ts ! n) \<le> created_at (ts ! m))"
proof -
  let ?ts = "select_all scan d"
  have "get_todos scan d = (reply 200 (Todos ?ts), d)" by (simp add: get_todos_def)
  moreover from assms have "mset ?ts = mset (rows d)"
    by (simp add: select_all_def mset_order_by)
  moreover have "\<forall>m n. m < n \<and> n < length ?ts \<longrightarrow> created_at (?ts ! n) \<le> created_at (?ts ! m)"
    using sorted_order_by [of "scan (rows d)"]
    by (simp add: select_all_def sorted_wrt_iff_nth_less)
  ultimately show ?thesis by blast
qed

theorem get_todos_newest_first_witness:
  "mset (rev (rows example_db)) = mset (rows example_db) \<and>
   get_todos rev example_db =
     (reply 200 (Todos
       [\<lparr>todo_id = 4, title = [116, 101, 97], completed = False, created_at = 20\<rparr>,
        \<lparr>todo_id = 2, title = [109, 105, 108, 107], completed = True, created_at = 20\<rparr>,
        \<lparr>todo_id = 1, title = [66, 117, 121], completed = False, created_at = 10\<rparr>]),
      example_db) \<and>
   created_at \<lparr>todo_id = 1, title = [66, 117, 121], completed = False, created_at = 10\<rparr>
     \<le> created_at \<lparr>todo_id = 4, title = [116, 101, 97], completed = False, created_at = 20\<rparr>"
proof -
  let ?ts = "[\<lparr>todo_id = 4, title = [116, 101, 97], completed = False, created_at = 20\<rparr>,
        \<lparr>todo_id = 2, title = [109, 105, 108, 107], completed = True, created_at = 20\<rparr>,
        \<lparr>todo_id = 1, title = [66, 117, 121], completed = False, created_at = 10\<rparr>]"
  have perm: "mset (rev (rows example_db)) = mset (rows example_db)"
    by simp
  from get_todos_newest_first [of rev example_db, OF perm]
  obtain ts where run: "get_todos rev example_db = (reply 200 (Todos ts), example_db)"
    and newest_first: "\<forall>m n. m < n \<and> n < length ts \<longrightarrow> created_at (ts ! n) \<le> created_at (ts ! m)"
    by blast
  have eval: "get_todos rev example_db = (reply 200 (Todos ?ts), example_db)"
    by (simp add: get_todos_def select_all_def example_db_def order_by_created_at_desc_def)
  with run have ts: "ts = ?ts"
    by (simp add: reply_def)
  then have "(0::nat) < 2 \<and> 2 < length ts"
    by simp
  with newest_first have "created_at (ts ! 2) \<le> created_at (ts ! 0)"
    by blast
  with ts eval perm show ?thesis
    by simp
qed

text \<open>
  Two items created within the same second of the database clock, the second one
  later: the identifiers are 1 and 2, the timestamps are equal. When the database
  reads the table in the order of the primary key, the list has the item created
  first in front of the item created second.
\<close>

theorem list_same_second_counterexample:
  "serve initializeDatabase [POST_todos 30 31 (String [97]), POST_todos 30 32 (String [98])] =
     two_in_a_second \<and>
   get_todos (\<lambda>rs. rs) two_in_a_second =
     (reply 200 (Todos
       [\<lparr>todo_id = 1, title = [97], completed = False, created_at = 30\<rparr>,
        \<lparr>todo_id = 2, title = [98], completed = False, created_at = 30\<rparr>]),
      two_in_a_second)"
proof -
  have a: "trim [97] = [97]" and b: "trim [98] = [98]"
    by (simp_all add: trim_def trimEnd_def trimStart_def is_whitespace_def)
  have "serve initializeDatabase [POST_todos 30 31 (String [97]), POST_todos 30 32 (String [98])] =
     two_in_a_second"
    by (simp add: post_todos_String a b initializeDatabase_def two_in_a_second_def)
  moreover have "get_todos (\<lambda>rs. rs) two_in_a_second =
     (reply 200 (Todos
       [\<lparr>todo_id = 1, title = [97], completed = False, created_at = 30\<rparr>,
        \<lparr>todo_id = 2, title = [98], completed = False, created_at = 30\<rparr>]),
      two_in_a_second)"
    by (simp add: get_todos_def select_all_def two_in_a_second_def order_by_created_at_desc_def)
  ultimately show ?thesis by blast
qed

section \<open>The active filter of the client\<close>

text \<open>
  C6. With the filter \<^verbatim>\<open>'active'\<close> the filtered list holds no item whose completion
  flag is true, and holds every item of the mirror whose flag is false (and nothing
  that is not in the mirror).
\<close>

theorem active_filter:
  "(\<forall>t \<in> set (getFilteredTodos ''active'' todos). \<not> completed t) \<and>
   (\<forall>t \<in> set todos. \<not> completed t \<longrightarrow> t \<in> set (getFilteredTodos ''active'' todos)) \<and>
   set (getFilteredTodos ''active'' todos) \<subseteq> set todos"
  by (auto simp: getFilteredTodos_def)

theorem active_filter_witness:
  "\<lparr>todo_id = 1, title = [66, 117, 121], completed = False, created_at = 10\<rparr>
     \<in> set (getFilteredTodos ''active'' (rows example_db)) \<and>
   \<lparr>todo_id = 2, title = [109, 105, 108, 107], completed = True, created_at = 20\<rparr>
     \<notin> set (getFilteredTodos ''active'' (rows example_db))"
proof -
  have "\<lparr>todo_id = 1, title = [66, 117, 121], completed = False, created_at = 10\<rparr>
          \<in> set (rows example_db)"
    by (simp add: example_db_def)
  with active_filter [of "rows example_db"]
  have "\<lparr>todo_id = 1, title = [66, 117, 121], completed = False, created_at = 10\<rparr>
          \<in> set (getFilteredTodos ''active'' (rows example_db))"
    by fastforce
  moreover from active_filter [of "rows example_db"]
  have "\<lparr>todo_id = 2, title = [109, 105, 108, 107], completed = True, created_at = 20\<rparr>
          \<notin> set (getFilteredTodos ''active'' (rows example_db))"
    by fastforce
  ultimately show ?thesis by simp
qed

section \<open>Creating an item\<close>

text \<open>
  C2, amended by the bound on the label. In a table with its primary key, a create
  request whose label is, after trimming, non-empty and at most 500 characters long
  (the width of the \<^verbatim>\<open>title\<close> column) answers 201 with an item whose identifier is
  the counter's value, which no stored row has, whose label is the trimmed label and
  whose completion flag is false; the row is appended to the table, which keeps its
  primary key.
\<close>

theorem create_succeeds:
  assumes "primary_key d" and "trim s \<noteq> []" and "length (trim s) \<le> 500"
  shows "\<exists>d'. post_todos ct nd d (String s) =
            (reply 201 (Todo \<lparr>todo_id = auto_increment d, title = trim s, completed = False,
               created_at = nd\<rparr>), d') \<and>
          auto_increment d \<notin> todo_id ` set (rows d) \<and>
          rows d' = rows d @
            [\<lparr>todo_id = auto_increment d, title = trim s, completed = False, created_at = ct\<rparr>] \<and>
          primary_key d'"
proof -
  from assms(1) have "auto_increment d \<notin> todo_id ` set (rows d)"
    by (auto simp: primary_key_def)
  moreover note primary_key_insert [OF assms(1), of "trim s" False ct]
  ultimately show ?thesis using assms(2,3) by (simp add: post_todos_String)
qed

theorem create_succeeds_witness:
  "primary_key example_db \<and> trim buy_milk = [66, 117, 121, 32, 109, 105, 108, 107] \<and>
   fst (post_todos 30 31 example_db (String buy_milk)) =
     reply 201 (Todo \<lparr>todo_id = 5, title = [66, 117, 121, 32, 109, 105, 108, 107],
       completed = False, created_at = 31\<rparr>)"
proof -
  have pk: "primary_key example_db"
    by (simp add: primary_key_def example_db_def)
  have ne: "trim buy_milk \<noteq> []" and le: "length (trim buy_milk) \<le> 500"
    by (simp_all add: trim_buy_milk)
  from create_succeeds [OF pk ne le, of 30 31]
  have "fst (post_todos 30 31 example_db (String buy_milk)) =
     reply 201 (Todo \<lparr>todo_id = auto_increment example_db, title = trim buy_milk,
       completed = False, created_at = 31\<rparr>)"
    by auto
  moreover have "auto_increment example_db = 5" by (simp add: example_db_def)
  ultimately show ?thesis using pk by (simp add: trim_buy_milk)
qed

text \<open>
  A label of 501 letters is non-empty after trimming, yet the INSERT rejects it and the
  handler answers 500, leaving the table as it was.
\<close>

theorem create_long_label_counterexample:
  "primary_key example_db \<and> trim long_label \<noteq> [] \<and>
   post_todos 30 31 example_db (String long_label) =
     (reply 500 (Error ''Failed to create todo''), example_db)"
proof -
  have "primary_key example_db"
    by (simp add: primary_key_def example_db_def)
  moreover have "trim long_label \<noteq> []"
    by (simp add: trim_long_label long_label_not_Nil)
  moreover have "post_todos 30 31 example_db (String long_label) =
     (reply 500 (Error ''Failed to create todo''), example_db)"
    by (simp add: post_todos_String trim_long_label length_long_label long_label_not_Nil)
  ultimately show ?thesis by blast
qed

text \<open>
  C3, amended to the values the handler takes for no label. A create request answers
  400 exactly when the label is missing, or is one of the JSON values null, false and
  0, or is a string that is empty or only whitespace; and a request answered 400 gets
  the message that a title is required and leaves the table unchanged.
\<close>

theorem create_validation:
  "(status (fst (post_todos ct nd d v)) = 400 \<longleftrightarrow>
      v = Undefined \<or> v = Null \<or> v = Boolean False \<or> v = Number 0 \<or>
      (\<exists>s. v = String s \<and> trim s = [])) \<and>
   (status (fst (post_todos ct nd d v)) = 400 \<longrightarrow>
      post_todos ct nd d v = (reply 400 (Error ''Title is required''), d))"
proof (intro conjI)
  show "status (fst (post_todos ct nd d v)) = 400 \<longleftrightarrow>
      v = Undefined \<or> v = Null \<or> v = Boolean False \<or> v = Number 0 \<or>
      (\<exists>s. v = String s \<and> trim s = [])"
  proof (cases v)
    case (String s)
    then show ?thesis by (simp add: post_todos_String status_reply)
  qed (simp_all add: post_todos_def status_reply)
  show "status (fst (post_todos ct nd d v)) = 400 \<longrightarrow>
      post_todos ct nd d v = (reply 400 (Error ''Title is required''), d)"
  proof (cases v)
    case (String s)
    then show ?thesis by (simp add: post_todos_String status_reply)
  qed (simp_all add: post_todos_def status_reply)
qed

theorem create_validation_witness:
  "post_todos 30 31 example_db (String [32, 9, 32]) =
     (reply 400 (Error ''Title is required''), example_db) \<and>
   post_todos 30 31 example_db Undefined =
     (reply 400 (Error ''Title is required''), example_db) \<and>
   status (fst (post_todos 30 31 example_db (String buy_milk))) \<noteq> 400 \<and>
   status (fst (post_todos 30 31 example_db (Number 5))) \<noteq> 400"
proof -
  have ws: "trim [32, 9, 32] = []"
    by (simp add: trim_def trimEnd_def trimStart_def is_whitespace_def)
  with create_validation [of 30 31 example_db "String [32, 9, 32]"]
  have "post_todos 30 31 example_db (String [32, 9, 32]) =
     (reply 400 (Error ''Title is required''), example_db)"
    by simp
  moreover from create_validation [of 30 31 example_db Undefined]
  have "post_todos 30 31 example_db Undefined =
     (reply 400 (Error ''Title is required''), example_db)"
    by simp
  moreover from create_validation [of 30 31 example_db "String buy_milk"]
  have "status (fst (post_todos 30 31 example_db (String buy_milk))) \<noteq> 400"
    by (simp add: trim_buy_milk)
  moreover from create_validation [of 30 31 example_db "Number 5"]
  have "status (fst (post_todos 30 31 example_db (Number 5))) \<noteq> 400"
    by simp
  ultimately show ?thesis by blast
qed

text \<open>
  The labels 0 and false are supplied, and are neither empty nor whitespace; the test
  \<^verbatim>\<open>!title\<close> takes them for no label and the handler answers 400.
\<close>

theorem create_falsy_label_counterexample:
  "post_todos 30 31 example_db (Number 0) =
     (reply 400 (Error ''Title is required''), example_db) \<and>
   post_todos 30 31 example_db (Boolean False) =
     (reply 400 (Error ''Title is required''), example_db)"
  by (simp add: post_todos_def)

section \<open>Updating an item\<close>

text \<open>
  C1, amended to a label that is a string within the bound. An update of an identifier
  that no row has answers 404. When a row has the identifier: a string label that is
  empty after trimming answers 400; a request with neither a label nor a flag answers
  400; and a request that supplies a flag, or a string label that after trimming is
  non-empty and at most 500 characters long, or both, answers 200 with the updated
  item, which is then a stored row. In each failing case the table is unchanged.
\<close>

theorem update_outcomes:
  "((\<forall>r \<in> set (rows d). todo_id r \<noteq> i) \<longrightarrow>
      put_todo d i t c = (reply 404 (Error ''Todo not found''), d)) \<and>
   ((\<exists>r \<in> set (rows d). todo_id r = i) \<and> trim s = [] \<longrightarrow>
      put_todo d i (String s) c = (reply 400 (Error ''Title cannot be empty''), d)) \<and>
   ((\<exists>r \<in> set (rows d). todo_id r = i) \<longrightarrow>
      put_todo d i Undefined Undefined = (reply 400 (Error ''No fields to update''), d)) \<and>
   (distinct (map todo_id (rows d)) \<and> r \<in> set (rows d) \<and> todo_id r = i \<and>
    (t = Undefined \<or> (\<exists>s. t = String s \<and> trim s \<noteq> [] \<and> length (trim s) \<le> 500)) \<and>
    (t \<noteq> Undefined \<or> c \<noteq> Undefined) \<longrightarrow>
      fst (put_todo d i t c) =
        reply 200 (Todo (r\<lparr>title := (case t of String s \<Rightarrow> trim s | _ \<Rightarrow> title r),
                           completed := (if c = Undefined then completed r else truthy c)\<rparr>)) \<and>
      r\<lparr>title := (case t of String s \<Rightarrow> trim s | _ \<Rightarrow> title r),
        completed := (if c = Undefined then completed r else truthy c)\<rparr>
        \<in> set (rows (snd (put_todo d i t c))))"
proof (intro conjI impI)
  assume "\<forall>r \<in> set (rows d). todo_id r \<noteq> i"
  then show "put_todo d i t c = (reply 404 (Error ''Todo not found''), d)"
    by (simp add: put_todo_absent select_by_id_Nil)
next
  assume "(\<exists>r \<in> set (rows d). todo_id r = i) \<and> trim s = []"
  then have "select_by_id d i \<noteq> []" and "trim s = []"
    by (simp_all add: select_by_id_Nil)
  then show "put_todo d i (String s) c = (reply 400 (Error ''Title cannot be empty''), d)"
    by (simp add: put_todo_found title_updates_cases)
next
  assume "\<exists>r \<in> set (rows d). todo_id r = i"
  then have "select_by_id d i \<noteq> []"
    by (simp add: select_by_id_Nil)
  then show "put_todo d i Undefined Undefined = (reply 400 (Error ''No fields to update''), d)"
    by (simp add: put_todo_found title_updates_cases completed_updates_def)
next
  assume a: "distinct (map todo_id (rows d)) \<and> r \<in> set (rows d) \<and> todo_id r = i \<and>
    (t = Undefined \<or> (\<exists>s. t = String s \<and> trim s \<noteq> [] \<and> length (trim s) \<le> 500)) \<and>
    (t \<noteq> Undefined \<or> c \<noteq> Undefined)"
  then have "distinct (map todo_id (rows d))" "r \<in> set (rows d)"
    "t = Undefined \<or> (\<exists>s. t = String s \<and> trim s \<noteq> [] \<and> length (trim s) \<le> 500)"
    "t \<noteq> Undefined \<or> c \<noteq> Undefined" and i: "i = todo_id r"
    by simp_all
  from put_todo_succeeds [OF this(1-4)]
  show "fst (put_todo d i t c) =
        reply 200 (Todo (r\<lparr>title := (case t of String s \<Rightarrow> trim s | _ \<Rightarrow> title r),
                           completed := (if c = Undefined then completed r else truthy c)\<rparr>))"
    and "r\<lparr>title := (case t of String s \<Rightarrow> trim s | _ \<Rightarrow> title r),
        completed := (if c = Undefined then completed r else truthy c)\<rparr>
        \<in> set (rows (snd (put_todo d i t c)))"
    unfolding i by blast+
qed


theorem update_outcomes_witness:
  "put_todo example_db 3 (String buy_milk) Undefined =
     (reply 404 (Error ''Todo not found''), example_db) \<and>
   put_todo example_db 2 (String [32, 9]) (Boolean False) =
     (reply 400 (Error ''Title cannot be empty''), example_db) \<and>
   put_todo example_db 2 Undefined Undefined =
     (reply 400 (Error ''No fields to update''), example_db) \<and>
   fst (put_todo example_db 2 (String buy_milk) Undefined) =
     reply 200 (Todo \<lparr>todo_id = 2, title = [66, 117, 121, 32, 109, 105, 108, 107],
       completed = True, created_at = 20\<rparr>)"
proof -
  let ?r = "\<lparr>todo_id = 2, title = [109, 105, 108, 107], completed = True, created_at = 20\<rparr>"
  have no3: "\<forall>r \<in> set (rows example_db). todo_id r \<noteq> 3"
    by (simp add: example_db_def)
  have r: "?r \<in> set (rows example_db)" and pk: "distinct (map todo_id (rows example_db))"
    by (simp_all add: example_db_def)
  then have has2: "\<exists>r \<in> set (rows example_db). todo_id r = 2"
    by force
  have ws: "trim [32, 9] = []"
    by (simp add: trim_def trimEnd_def trimStart_def is_whitespace_def)
  from update_outcomes [of example_db 3 "String buy_milk" Undefined "[]" ?r] no3
  have "put_todo example_db 3 (String buy_milk) Undefined =
      (reply 404 (Error ''Todo not found''), example_db)"
    by blast
  moreover from update_outcomes [of example_db 2 Undefined "Boolean False" "[32, 9]" ?r] has2 ws
  have "put_todo example_db 2 (String [32, 9]) (Boolean False) =
      (reply 400 (Error ''Title cannot be empty''), example_db)"
    and "put_todo example_db 2 Undefined Undefined =
      (reply 400 (Error ''No fields to update''), example_db)"
    by blast+
  moreover have "fst (put_todo example_db 2 (String buy_milk) Undefined) =
     reply 200 (Todo \<lparr>todo_id = 2, title = [66, 117, 121, 32, 109, 105, 108, 107],
       completed = True, created_at = 20\<rparr>)"
  proof -
    have "String buy_milk = Undefined \<or>
        (\<exists>s. String buy_milk = String s \<and> trim s \<noteq> [] \<and> length (trim s) \<le> 500)"
      by (simp add: trim_buy_milk)
    with update_outcomes [of example_db 2 "String buy_milk" Undefined "[]" ?r] r pk
    have "fst (put_todo example_db 2 (String buy_milk) Undefined) =
        reply 200 (Todo (?r\<lparr>title := (case String buy_milk of String s \<Rightarrow> trim s | _ \<Rightarrow> title ?r),
          completed := (if Undefined = Undefined then completed ?r else truthy Undefined)\<rparr>))"
      by simp
    then show ?thesis by (simp add: trim_buy_milk)
  qed
  ultimately show ?thesis by blast
qed

text \<open>
  Two updates of a stored item that get past every check of the handler. A label of 501
  letters is non-empty after trimming: the UPDATE rejects it. The label null with the
  flag true: \<^verbatim>\<open>title.trim()\<close> throws. The handler answers 500 to both and leaves
  the table as it was.
\<close>

theorem update_500_counterexample:
  "\<lparr>todo_id = 2, title = [109, 105, 108, 107], completed = True, created_at = 20\<rparr>
     \<in> set (rows example_db) \<and>
   trim long_label \<noteq> [] \<and>
   put_todo example_db 2 (String long_label) Undefined =
     (reply 500 (Error ''Failed to update todo''), example_db) \<and>
   put_todo example_db 2 Null (Boolean True) =
     (reply 500 (Error ''Failed to update todo''), example_db)"
proof -
  have r: "\<lparr>todo_id = 2, title = [109, 105, 108, 107], completed = True, created_at = 20\<rparr>
     \<in> set (rows example_db)"
    by (simp add: example_db_def)
  then have found: "select_by_id example_db 2 \<noteq> []"
    by (force simp: select_by_id_Nil)
  then have "put_todo example_db 2 (String long_label) Undefined =
     (reply 500 (Error ''Failed to update todo''), example_db)"
    by (simp add: put_todo_found title_updates_cases trim_long_label long_label_not_Nil
          length_long_label varchar_limit_def)
  moreover from found have "put_todo example_db 2 Null (Boolean True) =
     (reply 500 (Error ''Failed to update todo''), example_db)"
    by (simp add: put_todo_not_text)
  moreover have "trim long_label \<noteq> []"
    by (simp add: trim_long_label long_label_not_Nil)
  ultimately show ?thesis using r by blast
qed

text \<open>
  C7. After a successful update the table has the same rows in the same places, each
  with the identifier and the creation timestamp it had; a row with another identifier
  is unchanged; the label changes only if a label was supplied, the flag only if a
  flag was supplied. The AUTO\_INCREMENT counter is unchanged.
\<close>

theorem update_frame:
  assumes "status (fst (put_todo d i t c)) = 200"
  shows "auto_increment (snd (put_todo d i t c)) = auto_increment d \<and>
     list_all2 (\<lambda>r r'. todo_id r' = todo_id r \<and> created_at r' = created_at r \<and>
                  (todo_id r \<noteq> i \<longrightarrow> r' = r) \<and>
                  (t = Undefined \<longrightarrow> title r' = title r) \<and>
                  (c = Undefined \<longrightarrow> completed r' = completed r))
       (rows d) (rows (snd (put_todo d i t c)))"
proof -
  note ok = put_todo_200 [OF assms]
  then have eq: "snd (put_todo d i t c) =
        d\<lparr>rows := map (\<lambda>r. if todo_id r = i
               then r\<lparr>title := (case t of String s \<Rightarrow> trim s | _ \<Rightarrow> title r),
                      completed := (if c = Undefined then completed r else truthy c)\<rparr>
               else r) (rows d)\<rparr>"
    by simp
  show ?thesis
    unfolding eq by (simp add: list_all2_map2 list_all2_same)
qed

theorem update_frame_witness:
  "status (fst (put_todo example_db 2 Undefined (Boolean False))) = 200 \<and>
   rows (snd (put_todo example_db 2 Undefined (Boolean False))) =
     [\<lparr>todo_id = 1, title = [66, 117, 121], completed = False, created_at = 10\<rparr>,
      \<lparr>todo_id = 2, title = [109, 105, 108, 107], completed = False, created_at = 20\<rparr>,
      \<lparr>todo_id = 4, title = [116, 101, 97], completed = False, created_at = 20\<rparr>] \<and>
   auto_increment (snd (put_todo example_db 2 Undefined (Boolean False))) = 5"
proof -
  have run: "put_todo example_db 2 Undefined (Boolean False) =
    (reply 200 (Todo \<lparr>todo_id = 2, title = [109, 105, 108, 107], completed = False, created_at = 20\<rparr>),
     \<lparr>rows =
       [\<lparr>todo_id = 1, title = [66, 117, 121], completed = False, created_at = 10\<rparr>,
        \<lparr>todo_id = 2, title = [109, 105, 108, 107], completed = False, created_at = 20\<rparr>,
        \<lparr>todo_id = 4, title = [116, 101, 97], completed = False, created_at = 20\<rparr>],
      auto_increment = 5\<rparr>)"
    by (simp add: put_todo_def example_db_def select_by_id_def title_updates_def
          completed_updates_def update_todo_def)
  then have ok: "status (fst (put_todo example_db 2 Undefined (Boolean False))) = 200"
    by (simp add: status_reply)
  from update_frame [OF ok]
  have "auto_increment (snd (put_todo example_db 2 Undefined (Boolean False))) =
      auto_increment example_db"
    by simp
  then have "auto_increment (snd (put_todo example_db 2 Undefined (Boolean False))) = 5"
    by (simp add: example_db_def)
  with run ok show ?thesis by simp
qed


section \<open>The labels of the stored items\<close>

text \<open>
  C8. In every table reached from the empty one by any sequence of requests, the label
  of every stored item is non-empty after trimming and at most 500 characters long; and
  every request keeps this property of the table.
\<close>

theorem labels_invariant:
  "labels_ok (serve initializeDatabase qs) \<and>
   (labels_ok d \<longrightarrow> labels_ok (snd (app d q)))"
  by (simp add: serve_labels_ok labels_ok_initial app_labels_ok)

theorem labels_invariant_witness:
  "labels_ok example_db \<and>
   labels_ok (snd (app example_db (PUT_todo 2 (String buy_milk) Undefined))) \<and>
   labels_ok (snd (app example_db (POST_todos 30 31 (String long_label)))) \<and>
   labels_ok (serve initializeDatabase
     [POST_todos 30 31 (String buy_milk), PUT_todo 1 (String [32]) (Boolean True), DELETE_todo 1])"
proof -
  have ws: "\<not> is_whitespace 66" "\<not> is_whitespace 109" "\<not> is_whitespace 116"
    by (simp_all add: is_whitespace_def)
  have ex: "labels_ok example_db"
    by (simp add: labels_ok_def label_ok_def example_db_def trim_def trimEnd_def trimStart_def
          is_whitespace_def)
  with labels_invariant [of "[]" example_db "PUT_todo 2 (String buy_milk) Undefined"]
  have "labels_ok (snd (app example_db (PUT_todo 2 (String buy_milk) Undefined)))"
    by blast
  moreover from ex labels_invariant [of "[]" example_db "POST_todos 30 31 (String long_label)"]
  have "labels_ok (snd (app example_db (POST_todos 30 31 (String long_label))))"
    by blast
  moreover from labels_invariant
    [of "[POST_todos 30 31 (String buy_milk), PUT_todo 1 (String [32]) (Boolean True), DELETE_todo 1]"
        example_db GET_health]
  have "labels_ok (serve initializeDatabase
     [POST_todos 30 31 (String buy_milk), PUT_todo 1 (String [32]) (Boolean True), DELETE_todo 1])"
    by blast
  ultimately show ?thesis using ex by blast
qed

text \<open>
  C10. A create answered 201 returns and stores the trimmed label, and an update with a
  label answered 200 returns and stores the trimmed label; a request with the label
  \<open>trim s\<close> has the same outcome as the request with the label \<open>s\<close>.
\<close>

theorem stored_label_trimmed:
  "(status (fst (post_todos ct nd d (String s))) = 201 \<longrightarrow>
      fst (post_todos ct nd d (String s)) =
        reply 201 (Todo \<lparr>todo_id = auto_increment d, title = trim s, completed = False,
          created_at = nd\<rparr>) \<and>
      rows (snd (post_todos ct nd d (String s))) = rows d @
        [\<lparr>todo_id = auto_increment d, title = trim s, completed = False, created_at = ct\<rparr>]) \<and>
   (status (fst (put_todo d i (String s) c)) = 200 \<longrightarrow>
      (\<exists>item. body (fst (put_todo d i (String s) c)) = Todo item \<and> title item = trim s) \<and>
      (\<forall>r \<in> set (rows (snd (put_todo d i (String s) c))). todo_id r = i \<longrightarrow> title r = trim s)) \<and>
   post_todos ct nd d (String (trim s)) = post_todos ct nd d (String s) \<and>
   put_todo d i (String (trim s)) c = put_todo d i (String s) c"
proof (intro conjI impI)
  assume "status (fst (post_todos ct nd d (String s))) = 201"
  then have ok: "trim s \<noteq> [] \<and> \<not> length (trim s) > 500"
    by (simp add: post_todos_String status_reply split: if_splits)
  then show "fst (post_todos ct nd d (String s)) =
        reply 201 (Todo \<lparr>todo_id = auto_increment d, title = trim s, completed = False,
          created_at = nd\<rparr>)"
    by (simp add: post_todos_String)
  from ok show "rows (snd (post_todos ct nd d (String s))) = rows d @
        [\<lparr>todo_id = auto_increment d, title = trim s, completed = False, created_at = ct\<rparr>]"
    by (simp add: post_todos_String)
next
  assume ok: "status (fst (put_todo d i (String s) c)) = 200"
  show "\<exists>item. body (fst (put_todo d i (String s) c)) = Todo item \<and> title item = trim s"
    unfolding put_todo_String_200 [OF ok] by (simp add: body_reply)
  show "\<forall>r \<in> set (rows (snd (put_todo d i (String s) c))). todo_id r = i \<longrightarrow> title r = trim s"
    using ok by (rule put_todo_String_stored)
next
  show "post_todos ct nd d (String (trim s)) = post_todos ct nd d (String s)"
    by (simp add: post_todos_String trim_idem)
  show "put_todo d i (String (trim s)) c = put_todo d i (String s) c"
    by (simp add: put_todo_def title_updates_trim)
qed

theorem stored_label_trimmed_witness:
  "fst (post_todos 30 31 example_db (String buy_milk)) =
     reply 201 (Todo \<lparr>todo_id = 5, title = [66, 117, 121, 32, 109, 105, 108, 107],
       completed = False, created_at = 31\<rparr>) \<and>
   title (last (rows (snd (post_todos 30 31 example_db (String buy_milk))))) =
     [66, 117, 121, 32, 109, 105, 108, 107] \<and>
   title (rows (snd (put_todo example_db 2 (String buy_milk) Undefined)) ! 1) =
     [66, 117, 121, 32, 109, 105, 108, 107]"
proof -
  note inst = stored_label_trimmed [of 30 31 example_db buy_milk 2 Undefined]
  have run: "post_todos 30 31 example_db (String buy_milk) =
      (reply 201 (Todo \<lparr>todo_id = 5, title = [66, 117, 121, 32, 109, 105, 108, 107],
         completed = False, created_at = 31\<rparr>),
       \<lparr>rows = rows example_db @
          [\<lparr>todo_id = 5, title = [66, 117, 121, 32, 109, 105, 108, 107], completed = False,
            created_at = 30\<rparr>],
        auto_increment = 6\<rparr>)"
    by (simp add: post_todos_String trim_buy_milk) (simp add: example_db_def)
  then have "status (fst (post_todos 30 31 example_db (String buy_milk))) = 201"
    by (simp add: status_reply)
  with inst have created: "fst (post_todos 30 31 example_db (String buy_milk)) =
        reply 201 (Todo \<lparr>todo_id = auto_increment example_db, title = trim buy_milk,
          completed = False, created_at = 31\<rparr>)"
    and stored: "rows (snd (post_todos 30 31 example_db (String buy_milk))) = rows example_db @
        [\<lparr>todo_id = auto_increment example_db, title = trim buy_milk, completed = False,
          created_at = 30\<rparr>]"
    by blast+
  have "\<lparr>todo_id = 2, title = [109, 105, 108, 107], completed = True, created_at = 20\<rparr>
      \<in> set (rows example_db)"
    by (simp add: example_db_def)
  then have "select_by_id example_db 2 \<noteq> []"
    by (force simp: select_by_id_Nil)
  then have put: "put_todo example_db 2 (String buy_milk) Undefined =
      (reply 200 (Todo ((hd (select_by_id example_db 2))\<lparr>title := trim buy_milk\<rparr>)),
       example_db\<lparr>rows := map (\<lambda>r. if todo_id r = 2 then r\<lparr>title := trim buy_milk\<rparr> else r)
         (rows example_db)\<rparr>)"
    by (simp add: put_todo_found title_updates_cases completed_updates_def trim_buy_milk
          varchar_limit_def)
  then have ok: "status (fst (put_todo example_db 2 (String buy_milk) Undefined)) = 200"
    by (simp add: status_reply)
  have second: "rows (snd (put_todo example_db 2 (String buy_milk) Undefined)) ! 1
      \<in> set (rows (snd (put_todo example_db 2 (String buy_milk) Undefined)))"
    unfolding put by (simp add: example_db_def)
  have "todo_id (rows (snd (put_todo example_db 2 (String buy_milk) Undefined)) ! 1) = 2"
    unfolding put by (simp add: example_db_def)
  with inst ok second
  have "title (rows (snd (put_todo example_db 2 (String buy_milk) Undefined)) ! 1) = trim buy_milk"
    by blast
  with created stored show ?thesis
    by (simp add: trim_buy_milk example_db_def)
qed

end
